theory Spec2Isabelle
  imports Complex_Main
begin

section \<open>Values shared by the three components\<close>

text \<open>
  JavaScript numbers are IEEE 754 double-precision numbers. The model carries a finite
  number as the rational it denotes: storing, copying and comparing numbers is exact on
  rationals as it is on doubles. \<open>NaN\<close> and the infinities are not values of the model; a
  field that is absent from a message (\<open>undefined\<close>) is \<open>None\<close>.
\<close>

type_synonym number = rat

text \<open>
  The result of an arithmetic operation is the double nearest to the exact result, ties
  going to the even significand. \<open>to_double\<close> rounds a rational to 53 significant bits
  in that way: \<open>ilog2\<close> is the binary exponent of a positive rational (from the bit
  lengths of its numerator and denominator), \<open>pow2 (ilog2 x - 52)\<close> the spacing of the
  doubles around it, and \<open>round_even\<close> rounds the quotient to an integer. The exponent is
  not bounded: a difference of two doubles that is too small for a normal double is
  exact here as it is in IEEE arithmetic, and one too large for a double is rounded to a
  large number where IEEE arithmetic gives infinity.
\<close>

function bitlen :: "int \<Rightarrow> int" where
  "bitlen n = (if n \<le> 0 then 0 else 1 + bitlen (n div 2))"
  by pat_completeness auto
termination
  by (relation "measure nat") auto

declare bitlen.simps [simp del]

definition pow2 :: "int \<Rightarrow> number" where
  "pow2 e = (if 0 \<le> e then 2 ^ nat e else 1 / 2 ^ nat (- e))"

definition ilog2 :: "number \<Rightarrow> int" where
  "ilog2 x =
     (let (p, q) = quotient_of x;
          d = bitlen p - bitlen q
      in if pow2 d \<le> x then d else d - 1)"

definition round_even :: "number \<Rightarrow> int" where
  "round_even y =
     (let f = \<lfloor>y\<rfloor>; r = y - of_int f
      in if r < 1 / 2 then f else if 1 / 2 < r then f + 1 else if even f then f else f + 1)"

definition to_double :: "number \<Rightarrow> number" where
  "to_double x =
     (if x = 0 then 0
      else (let u = pow2 (ilog2 \<bar>x\<bar> - 52)
            in sgn x * of_int (round_even (\<bar>x\<bar> / u)) * u))"

text \<open>The JavaScript expression \<open>a - b\<close> on two numbers.\<close>

definition js_minus :: "number \<Rightarrow> number \<Rightarrow> number" where
  "js_minus a b = to_double (a - b)"

text \<open>
  The JavaScript expression \<open>x || d\<close> on an optional number: \<open>undefined\<close> and \<open>0\<close> are
  falsy, so the default \<open>d\<close> is taken for both; every other number is kept.
\<close>

definition or_number :: "number option \<Rightarrow> number \<Rightarrow> number" where
  "or_number x d = (case x of None \<Rightarrow> d | Some n \<Rightarrow> if n = 0 then d else n)"

text \<open>The same operator on an optional string: \<open>undefined\<close> and the empty string are falsy.\<close>

definition or_string :: "string option \<Rightarrow> string \<Rightarrow> string" where
  "or_string x d = (case x of None \<Rightarrow> d | Some s \<Rightarrow> if s = [] then d else s)"

text \<open>Truthiness of an optional boolean field (\<open>if (data.playing)\<close>).\<close>

definition truthy :: "bool option \<Rightarrow> bool" where
  "truthy x = (x = Some True)"

text \<open>
  A Sync Event as it travels between peers: the \<open>type\<close> tag and the optional fields the
  handlers read. \<open>OtherType\<close> stands for every tag that no \<open>case\<close> of \<open>applySync\<close> matches.
\<close>

datatype sync_type =
  Play | Pause | Seek | Speed | Buffering | SyncRequest | SyncResponse | Chat | OtherType

record sync_event =
  etype :: sync_type
  time :: "number option"
  speed :: "number option"
  playing :: "bool option"
  nickname :: "string option"
  message :: "string option"
  url :: "string option"

section \<open>Sync Agent (src/content/content.js)\<close>

text \<open>
  The media element, reduced to the properties the agent reads and writes, and the two
  layout properties \<open>findPrimaryVideo\<close> multiplies.
\<close>

record video =
  currentTime :: number
  paused :: bool
  playbackRate :: number
  clientWidth :: nat
  clientHeight :: nat

record agent =
  activeVideo :: "video option"
  ignoreEvents :: bool
  isBuffering :: bool
  href :: string

datatype js_error = TypeError

datatype toast_kind = SelfToast | PeerToast | WarningToast | SuccessToast | InfoToast

text \<open>The toast texts, kept structured: who did what (the rendering is presentation).\<close>

datatype toast_text =
    Played string
  | PausedBy string
  | SeekedTo string number
  | SetSpeedTo string number
  | BufferingPaused string
  | SyncedWithSession

text \<open>
  What one call of \<open>applySync\<close> does to the outside, in program order: operations on the
  media element, messages to the background script, toasts, chat lines, log lines and the
  timer that clears \<open>ignoreEvents\<close>.
\<close>

datatype agent_effect =
    SetCurrentTime number
  | SetPlaybackRate number
  | CallPlay
  | CallPause
  | ShowToast toast_text toast_kind
  | ShowChatMessage "string option" "string option"
  | SendSyncResponse sync_event
  | ConsoleLog string
  | SetTimeout nat

definition SYNC_THRESHOLD :: number where
  "SYNC_THRESHOLD = 1 / 2"

text \<open>
  \<open>findPrimaryVideo\<close> over the list that \<open>findAllVideos()\<close> returned: the first element
  whose area exceeds every area before it, starting from \<open>videos[0]\<close> and area \<open>0\<close>.
\<close>

fun largest_from :: "video list \<Rightarrow> video \<Rightarrow> nat \<Rightarrow> video" where
  "largest_from [] largest maxArea = largest"
| "largest_from (v # vs) largest maxArea =
     (let area = clientWidth v * clientHeight v
      in if area > maxArea then largest_from vs v area else largest_from vs largest maxArea)"

definition findPrimaryVideo :: "video list \<Rightarrow> video option" where
  "findPrimaryVideo videos =
     (case videos of [] \<Rightarrow> None | v0 # _ \<Rightarrow> Some (largest_from videos v0 0))"

text \<open>
  The two attribute setters of the media element. Both attributes are of IDL type
  \<open>double\<close>: assigning \<open>undefined\<close> raises a \<open>TypeError\<close> and leaves the element as it
  was; assigning a number stores it. The element's own limits (the seekable range, the
  playback rates it supports) are not part of the model: every number is accepted.
\<close>

definition set_currentTime :: "number option \<Rightarrow> video \<Rightarrow> js_error + video \<times> agent_effect list" where
  "set_currentTime x v =
     (case x of None \<Rightarrow> Inl TypeError
      | Some t \<Rightarrow> Inr (v\<lparr>currentTime := t\<rparr>, [SetCurrentTime t]))"

definition set_playbackRate :: "number option \<Rightarrow> video \<Rightarrow> js_error + video \<times> agent_effect list" where
  "set_playbackRate x v =
     (case x of None \<Rightarrow> Inl TypeError
      | Some r \<Rightarrow> Inr (v\<lparr>playbackRate := r\<rparr>, [SetPlaybackRate r]))"

definition video_play :: "video \<Rightarrow> video" where
  "video_play v = v\<lparr>paused := False\<rparr>"

definition video_pause :: "video \<Rightarrow> video" where
  "video_pause v = v\<lparr>paused := True\<rparr>"

text \<open>
  The conditional seek of the \<open>play\<close> and \<open>pause\<close> cases:
  \<open>if (timeDiff > SYNC_THRESHOLD) activeVideo.currentTime = data.time\<close>.
\<close>

definition seek_if_drifted :: "number \<Rightarrow> sync_event \<Rightarrow> video \<Rightarrow> js_error + video \<times> agent_effect list" where
  "seek_if_drifted timeDiff d v =
     (if timeDiff > SYNC_THRESHOLD then set_currentTime (time d) v else Inr (v, []))"

text \<open>
  The \<open>switch\<close> of \<open>applySync\<close> on the bound element. A setter that throws ends the call:
  in every case the throwing assignment is the first thing the case does, so the element
  and the outside are untouched when \<open>Inl\<close> is returned.
\<close>

definition applyToVideo :: "string \<Rightarrow> video \<Rightarrow> sync_event \<Rightarrow> js_error + video \<times> agent_effect list" where
  "applyToVideo here v d =
     (let timeDiff = \<bar>js_minus (currentTime v) (or_number (time d) 0)\<bar>;
          sender = or_string (nickname d) ''Someone''
      in case etype d of
           Play \<Rightarrow>
             (case seek_if_drifted timeDiff d v of
                Inl e \<Rightarrow> Inl e
              | Inr (v1, es) \<Rightarrow>
                  Inr (video_play v1, es @ [CallPlay, ShowToast (Played sender) PeerToast]))
         | Pause \<Rightarrow>
             (case seek_if_drifted timeDiff d v of
                Inl e \<Rightarrow> Inl e
              | Inr (v1, es) \<Rightarrow>
                  Inr (video_pause v1, es @ [CallPause, ShowToast (PausedBy sender) PeerToast]))
         | Seek \<Rightarrow>
             (case set_currentTime (time d) v of
                Inl e \<Rightarrow> Inl e
              | Inr (v1, es) \<Rightarrow>
                  Inr (v1, es @ [ShowToast (SeekedTo sender (currentTime v1)) PeerToast]))
         | Speed \<Rightarrow>
             (case set_playbackRate (speed d) v of
                Inl e \<Rightarrow> Inl e
              | Inr (v1, es) \<Rightarrow>
                  Inr (v1, es @ [ShowToast (SetSpeedTo sender (playbackRate v1)) PeerToast]))
         | Buffering \<Rightarrow>
             Inr (video_pause v, [CallPause, ShowToast (BufferingPaused sender) WarningToast])
         | SyncRequest \<Rightarrow>
             Inr (v, [SendSyncResponse
                        \<lparr>etype = SyncResponse, time = Some (currentTime v), speed = Some (playbackRate v),
                         playing = Some (\<not> paused v), nickname = None, message = None,
                         url = Some here\<rparr>])
         | SyncResponse \<Rightarrow>
             (case set_currentTime (time d) v of
                Inl e \<Rightarrow> Inl e
              | Inr (v1, es1) \<Rightarrow>
                  (case set_playbackRate (Some (or_number (speed d) 1)) v1 of
                     Inl e \<Rightarrow> Inl e
                   | Inr (v2, es2) \<Rightarrow>
                       Inr (if truthy (playing d) then video_play v2 else video_pause v2,
                            es1 @ es2 @ [if truthy (playing d) then CallPlay else CallPause,
                                         ShowToast SyncedWithSession SuccessToast])))
         | Chat \<Rightarrow> Inr (v, [ShowChatMessage (nickname d) (message d)])
         | OtherType \<Rightarrow> Inr (v, []))"

text \<open>
  The element \<open>applySync\<close> works on: the bound one, or else the page's primary video
  (\<open>page\<close> is what \<open>findAllVideos()\<close> returns at the time of the call).
\<close>

definition resolveVideo :: "video list \<Rightarrow> agent \<Rightarrow> video option" where
  "resolveVideo page a =
     (case activeVideo a of None \<Rightarrow> findPrimaryVideo page | Some v \<Rightarrow> Some v)"

text \<open>
  \<open>applySync(data, fromPeerId)\<close>: the new agent, the effects in order, and the exception
  that ended the call, if one did. The timer that clears \<open>ignoreEvents\<close> after 200 ms is
  the last effect; a call ended by an exception never sets it.
\<close>

definition applySync :: "video list \<Rightarrow> agent \<Rightarrow> sync_event \<Rightarrow> agent \<times> agent_effect list \<times> js_error option" where
  "applySync page a d =
     (case resolveVideo page a of
        None \<Rightarrow> (a, [ConsoleLog ''[VideoSync] No video found to sync''], None)
      | Some v \<Rightarrow>
          (case applyToVideo (href a) v d of
             Inl e \<Rightarrow> (a\<lparr>activeVideo := Some v, ignoreEvents := True\<rparr>, [], Some e)
           | Inr (v', es) \<Rightarrow>
               (a\<lparr>activeVideo := Some v', ignoreEvents := True\<rparr>, es @ [SetTimeout 200], None)))"

section \<open>Connection Manager (src/offscreen/offscreen.js)\<close>

subsection \<open>State\<close>

text \<open>
  The \<open>Peer\<close> object of the transport library, reduced to the identity it was created
  with (\<open>None\<close> for an anonymous one) and the two flags \<open>getStatus\<close> reads.
\<close>

record peer_obj =
  peer_id :: "string option"
  disconnected :: bool
  destroyed :: bool

text \<open>
  A \<open>DataConnection\<close> object: the remote identity (\<open>conn.peer\<close>) and the transport's
  \<open>conn.open\<close> flag. The objects live in a heap (\<open>links\<close>, addressed by position), since
  the mapping \<open>connections\<close> and the handlers' closures hold references to them.
\<close>

record conn =
  conn_peer :: string
  conn_open :: bool

text \<open>
  The module's globals, the heap, and the connections on which \<open>setupConnection\<close> has
  registered its four handlers. \<open>connections\<close> is the JavaScript \<open>Map\<close>: keys in insertion
  order, each key once.
\<close>

record cm =
  peer :: "peer_obj option"
  connections :: "(string \<times> nat) list"
  sessionCode :: "string option"
  isHost :: bool
  links :: "conn list"
  listeners :: "nat list"

text \<open>Messages to the background script (\<open>sendToBackground(action, data)\<close>).\<close>

datatype bg_message =
    OffscreenReady
  | PeerReady string
  | PeerJoined string int
  | PeerLeft string int
  | PeerData sync_event string
  | ConnectionStatus string

text \<open>
  What the Connection Manager does to the outside, in program order: messages to the
  background script and calls into the transport library (\<open>new Peer\<close>, \<open>peer.destroy()\<close>,
  \<open>peer.connect\<close>, \<open>conn.send\<close>, \<open>conn.close()\<close>). What the library does in response is
  not part of an effect; its events come back through \<open>emit\<close> and the signals below.
\<close>

datatype cm_effect =
    ToBackground bg_message
  | NewPeer "string option"
  | PeerDestroy
  | PeerConnect nat string
  | ConnSend nat sync_event
  | ConnClose nat

text \<open>The replies of the message listener, and a settled promise.\<close>

datatype response =
    SessionOk string bool
  | Failure string
  | Done

definition success :: "response \<Rightarrow> bool" where
  "success r = (case r of SessionOk _ _ \<Rightarrow> True | Failure _ \<Rightarrow> False | Done \<Rightarrow> True)"

definition code_of :: "response \<Rightarrow> string option" where
  "code_of r = (case r of SessionOk code _ \<Rightarrow> Some code | _ \<Rightarrow> None)"

datatype 'a promise = Resolved 'a | Rejected string

record status =
  connected :: bool
  status_sessionCode :: "string option"
  status_isHost :: bool
  peerCount :: int

subsection \<open>The Map operations used on \<open>connections\<close>\<close>

fun Map_set :: "string \<Rightarrow> nat \<Rightarrow> (string \<times> nat) list \<Rightarrow> (string \<times> nat) list" where
  "Map_set k v [] = [(k, v)]"
| "Map_set k v ((k', v') # m) = (if k' = k then (k, v) # m else (k', v') # Map_set k v m)"

definition Map_delete :: "string \<Rightarrow> (string \<times> nat) list \<Rightarrow> (string \<times> nat) list" where
  "Map_delete k m = filter (\<lambda>(k', v). k' \<noteq> k) m"

definition Map_size :: "(string \<times> nat) list \<Rightarrow> int" where
  "Map_size m = int (length m)"

subsection \<open>Session codes\<close>

definition chars :: string where
  "chars = ''ABCDEFGHJKLMNPQRSTUVWXYZ23456789''"

text \<open>\<open>String.prototype.charAt\<close>: the empty string for a position outside the string.\<close>

definition charAt :: "string \<Rightarrow> int \<Rightarrow> string" where
  "charAt s i = (if 0 \<le> i \<and> i < int (length s) then [s ! nat i] else [])"

text \<open>
  \<open>generateSessionCode\<close>. \<open>Math.random()\<close> is a stream of numbers \<open>rnd\<close>; the call that
  starts when \<open>k\<close> numbers have been drawn takes \<open>rnd k\<close>, \<open>rnd (k + 1)\<close>, ... The \<open>for\<close>
  loop is \<open>code_loop\<close>, with the loop variable and the code built so far. The product
  with \<open>chars.length\<close>, which is 32, is exact in double precision, so it is not rounded.
\<close>

function code_loop :: "(nat \<Rightarrow> number) \<Rightarrow> nat \<Rightarrow> nat \<Rightarrow> string \<Rightarrow> string" where
  "code_loop rnd k i code =
     (if i < 6
      then code_loop rnd k (i + 1)
             (code @ charAt chars \<lfloor>rnd (k + i) * of_nat (length chars)\<rfloor>)
      else code)"
  by pat_completeness auto
termination
  by (relation "measure (\<lambda>(rnd, k, i, code). 6 - i)") auto

definition generateSessionCode :: "(nat \<Rightarrow> number) \<Rightarrow> nat \<Rightarrow> string" where
  "generateSessionCode rnd k = code_loop rnd k 0 []"

text \<open>\<open>String.prototype.toUpperCase\<close> on the ASCII letters; every other character is kept.\<close>

definition toUpperCase :: "string \<Rightarrow> string" where
  "toUpperCase s =
     map (\<lambda>c. if (97 :: nat) \<le> of_char c \<and> of_char c \<le> (122 :: nat)
              then char_of (of_char c - (32 :: nat)) else c) s"

definition sessionCodeToPeerId :: "string \<Rightarrow> string" where
  "sessionCodeToPeerId code = ''videosync-'' @ toUpperCase code"

subsection \<open>Peer initialisation\<close>

text \<open>
  What settles the promise of \<open>initPeer\<close>: the first of the peer's \<open>open\<close> event (with the
  identity the broker confirmed), its \<open>error\<close> event (with \<open>err.type\<close> and \<open>err.message\<close>)
  and the 15-second timer.
\<close>

datatype peer_signal = SigOpen string | SigError string "string option" | SigTimeout

definition peer_error_message :: "string \<Rightarrow> string option \<Rightarrow> string" where
  "peer_error_message ty msg =
     (if ty = ''unavailable-id'' then ''Session code already in use''
      else if ty = ''peer-unavailable'' then ''Session not found - check the code''
      else if ty = ''network'' then ''Network error - check your connection''
      else if ty = ''server-error'' then ''Server error - try again''
      else or_string msg ''Connection failed'')"

text \<open>
  \<open>initPeer(peerId)\<close>: the global \<open>peer\<close> is the new object from the first statement on;
  the result is \<open>Inr\<close> the identity when the promise resolves and \<open>Inl\<close> the error message
  when it rejects (\<open>init_result\<close>). The handler of \<open>open\<close> notifies the background script;
  the handler of \<open>error\<close> and the timer's callback only reject.
\<close>

definition init_result :: "peer_signal \<Rightarrow> string + string" where
  "init_result sig =
     (case sig of
        SigOpen i \<Rightarrow> Inr i
      | SigError ty msg \<Rightarrow> Inl (peer_error_message ty msg)
      | SigTimeout \<Rightarrow> Inl ''Connection timeout - could not reach signaling server'')"

definition initPeer :: "string option \<Rightarrow> peer_signal \<Rightarrow> cm \<Rightarrow> cm \<times> cm_effect list \<times> (string + string)" where
  "initPeer peerId sig s =
     (s\<lparr>peer := Some \<lparr>peer_id = peerId, disconnected = False, destroyed = False\<rparr>\<rparr>,
      NewPeer peerId # (case sig of SigOpen i \<Rightarrow> [ToBackground (PeerReady i)] | _ \<Rightarrow> []),
      init_result sig)"

text \<open>
  The opening of \<open>createSession\<close> and \<open>joinSession\<close>:
  \<open>if (peer) { peer.destroy(); connections.clear(); }\<close>, with a call of \<open>peer.destroy()\<close>
  that returns.
\<close>

definition destroy_existing :: "cm \<Rightarrow> cm \<times> cm_effect list" where
  "destroy_existing s =
     (case peer s of
        None \<Rightarrow> (s, [])
      | Some p \<Rightarrow> (s\<lparr>peer := Some (p\<lparr>destroyed := True\<rparr>), connections := []\<rparr>, [PeerDestroy]))"

subsection \<open>Connection handlers\<close>

definition peer_of :: "cm \<Rightarrow> nat \<Rightarrow> string" where
  "peer_of s c = conn_peer (links s ! c)"

definition link_open :: "cm \<Rightarrow> nat \<Rightarrow> bool" where
  "link_open s c = conn_open (links s ! c)"

text \<open>\<open>setupConnection(conn)\<close> registers the four handlers below on the connection.\<close>

definition setupConnection :: "nat \<Rightarrow> cm \<Rightarrow> cm" where
  "setupConnection c s = s\<lparr>listeners := c # listeners s\<rparr>"

definition conn_onOpen :: "nat \<Rightarrow> cm \<Rightarrow> cm \<times> cm_effect list" where
  "conn_onOpen c s =
     (let s' = s\<lparr>connections := Map_set (peer_of s c) c (connections s)\<rparr>
      in (s', [ToBackground (PeerJoined (peer_of s c) (Map_size (connections s') + 1))]))"

text \<open>The targets of the relay loop, in the order \<open>forEach\<close> visits them.\<close>

definition relay_targets :: "cm \<Rightarrow> nat \<Rightarrow> nat list" where
  "relay_targets s c =
     map snd (filter (\<lambda>(i, k). i \<noteq> peer_of s c \<and> link_open s k) (connections s))"

definition conn_onData :: "nat \<Rightarrow> sync_event \<Rightarrow> cm \<Rightarrow> cm \<times> cm_effect list" where
  "conn_onData c d s =
     (s, ToBackground (PeerData d (peer_of s c))
         # (if isHost s \<and> Map_size (connections s) > 1
            then map (\<lambda>k. ConnSend k d) (relay_targets s c) else []))"

definition conn_onClose :: "nat \<Rightarrow> cm \<Rightarrow> cm \<times> cm_effect list" where
  "conn_onClose c s =
     (let s' = s\<lparr>connections := Map_delete (peer_of s c) (connections s)\<rparr>
      in (s', [ToBackground (PeerLeft (peer_of s c) (Map_size (connections s') + 1))]))"

definition conn_onError :: "nat \<Rightarrow> cm \<Rightarrow> cm \<times> cm_effect list" where
  "conn_onError c s =
     (s\<lparr>connections := Map_delete (peer_of s c) (connections s)\<rparr>, [])"

text \<open>
  The entries of \<open>connections\<close> whose connection is open, and the property that every
  entry is stored under its own connection's \<open>peer\<close> (the only writer of the mapping is
  \<open>connections.set(conn.peer, conn)\<close>).
\<close>

definition open_links :: "cm \<Rightarrow> (string \<times> nat) list" where
  "open_links s = filter (\<lambda>(i, k). link_open s k) (connections s)"

definition keyed :: "cm \<Rightarrow> bool" where
  "keyed s = list_all (\<lambda>(i, k). k < length (links s) \<and> peer_of s k = i) (connections s)"

text \<open>
  The transport's events on a connection, and their delivery. The transport sets
  \<open>conn.open\<close> before it emits \<open>open\<close> and clears it before it emits \<open>close\<close>; an event
  reaches the handlers that \<open>setupConnection\<close> had registered when it was emitted, and
  nothing else.
\<close>

datatype conn_event = EvOpen | EvData sync_event | EvClose | EvError

definition set_link_open :: "nat \<Rightarrow> bool \<Rightarrow> cm \<Rightarrow> cm" where
  "set_link_open c b s = s\<lparr>links := (links s)[c := (links s ! c)\<lparr>conn_open := b\<rparr>]\<rparr>"

definition emit :: "nat \<Rightarrow> conn_event \<Rightarrow> cm \<Rightarrow> cm \<times> cm_effect list" where
  "emit c ev s =
     (if c < length (links s)
      then
        (let s1 = (case ev of EvOpen \<Rightarrow> set_link_open c True s
                   | EvClose \<Rightarrow> set_link_open c False s
                   | _ \<Rightarrow> s)
         in if c \<in> set (listeners s)
            then (case ev of
                    EvOpen \<Rightarrow> conn_onOpen c s1
                  | EvData d \<Rightarrow> conn_onData c d s1
                  | EvClose \<Rightarrow> conn_onClose c s1
                  | EvError \<Rightarrow> conn_onError c s1)
            else (s1, []))
      else (s, []))"

text \<open>
  \<open>peer.on('connection', ...)\<close>: an incoming connection, not yet open, gets its handlers.
\<close>

definition peer_onConnection :: "string \<Rightarrow> cm \<Rightarrow> cm \<times> nat" where
  "peer_onConnection remote s =
     (let c = length (links s)
      in (setupConnection c (s\<lparr>links := links s @ [\<lparr>conn_peer = remote, conn_open = False\<rparr>]\<rparr>), c))"

subsection \<open>Operations\<close>

text \<open>
  One pass through the body of \<open>createSession\<close> up to the end of the \<open>await\<close>: attempt
  number \<open>n\<close> draws its six random numbers from position \<open>6 * n\<close> and is settled by the
  signal \<open>sig\<close>. The third component is the value of \<open>sessionCode\<close> the pass has set.
\<close>

definition createSession_attempt ::
    "(nat \<Rightarrow> number) \<Rightarrow> peer_signal \<Rightarrow> nat \<Rightarrow> cm
      \<Rightarrow> cm \<times> cm_effect list \<times> string \<times> (string + string)" where
  "createSession_attempt rnd sig n s =
     (let (s1, es1) = destroy_existing s;
          code = generateSessionCode rnd (6 * n);
          s2 = s1\<lparr>sessionCode := Some code, isHost := True\<rparr>;
          (s3, es3, r) = initPeer (Some (sessionCodeToPeerId code)) sig s2
      in (s3, es1 @ es3, code, r))"

text \<open>
  \<open>createSession()\<close>. The signals of the successive attempts are \<open>sigs 0\<close>, \<open>sigs 1\<close>, ...;
  \<open>acc\<close> holds the effects of the attempts so far. The \<open>catch\<close> branch calls
  \<open>createSession()\<close> again when the message is the collision message, so a run need not
  return: \<open>None\<close> is the run that never does.
\<close>

partial_function (option) createSession ::
    "(nat \<Rightarrow> number) \<Rightarrow> (nat \<Rightarrow> peer_signal) \<Rightarrow> nat \<Rightarrow> cm_effect list \<Rightarrow> cm
      \<Rightarrow> (cm \<times> cm_effect list \<times> response) option" where
  "createSession rnd sigs n acc s =
     (case createSession_attempt rnd (sigs n) n s of
        (s3, es, code, r) \<Rightarrow>
          (case r of
             Inr i \<Rightarrow> Some (s3, acc @ es, SessionOk code True)
           | Inl msg \<Rightarrow>
               if msg = ''Session code already in use''
               then createSession rnd sigs (Suc n) (acc @ es) s3
               else Some (s3, acc @ es, Failure msg)))"

text \<open>A signal after which the \<open>catch\<close> branch of \<open>createSession\<close> retries.\<close>

definition collides :: "peer_signal \<Rightarrow> bool" where
  "collides sig = (init_result sig = Inl ''Session code already in use'')"

text \<open>
  What settles the promise that \<open>joinSession\<close> returns once the peer is ready: the
  connection's \<open>open\<close> event, its \<open>error\<close> event, or the 10-second timer.
\<close>

datatype link_signal = LinkOpen | LinkError | LinkTimeout

definition sync_request :: sync_event where
  "sync_request = \<lparr>etype = SyncRequest, time = None, speed = None, playing = None,
                    nickname = None, message = None, url = None\<rparr>"

text \<open>
  \<open>joinSession(code)\<close>. The connection to the host is a new object \<open>c\<close> of the heap. Its
  \<open>open\<close> event is handled by the handler written in \<open>joinSession\<close>, which only then calls
  \<open>setupConnection\<close>: the handlers of \<open>setupConnection\<close> are registered while \<open>open\<close> is
  being emitted and are not part of that emission.
\<close>

definition joinSession ::
    "string \<Rightarrow> peer_signal \<Rightarrow> link_signal \<Rightarrow> cm \<Rightarrow> cm \<times> cm_effect list \<times> response promise" where
  "joinSession code sig lsig s =
     (let (s1, es1) = destroy_existing s;
          s2 = s1\<lparr>sessionCode := Some (toUpperCase code), isHost := False\<rparr>;
          (s3, es3, r) = initPeer None sig s2
      in case r of
           Inl msg \<Rightarrow> (s3, es1 @ es3, Resolved (Failure msg))
         | Inr i \<Rightarrow>
             (let hostPeerId = sessionCodeToPeerId (toUpperCase code);
                  c = length (links s3);
                  s4 = s3\<lparr>links := links s3 @ [\<lparr>conn_peer = hostPeerId, conn_open = False\<rparr>]\<rparr>;
                  es4 = es1 @ es3 @ [PeerConnect c hostPeerId]
              in case lsig of
                   LinkOpen \<Rightarrow>
                     (setupConnection c (set_link_open c True s4),
                      es4 @ [ConnSend c sync_request],
                      Resolved (SessionOk (toUpperCase code) False))
                 | LinkError \<Rightarrow> (s4, es4, Rejected ''Failed to connect to session'')
                 | LinkTimeout \<Rightarrow>
                     (s4, es4 @ [ConnClose c],
                      Rejected ''Could not connect to session - host may be offline'')))"



definition getStatus :: "cm \<Rightarrow> status" where
  "getStatus s =
     \<lparr>connected = (case peer s of None \<Rightarrow> False | Some p \<Rightarrow> \<not> disconnected p \<and> \<not> destroyed p),
      status_sessionCode = sessionCode s,
      status_isHost = isHost s,
      peerCount = Map_size (connections s)
                  + (case peer s of None \<Rightarrow> 0 | Some p \<Rightarrow> if \<not> destroyed p then 1 else 0)\<rparr>"

definition broadcast :: "sync_event \<Rightarrow> cm \<Rightarrow> cm_effect list" where
  "broadcast d s =
     map (\<lambda>(i, k). ConnSend k d) (filter (\<lambda>(i, k). link_open s k) (connections s))"

text \<open>
  The reply the message listener sends for \<open>join-session\<close>:
  \<open>joinSession(code).then(sendResponse).catch(err => sendResponse({success: false, ...}))\<close>.
\<close>

definition join_reply :: "response promise \<Rightarrow> response" where
  "join_reply p = (case p of Resolved r \<Rightarrow> r | Rejected msg \<Rightarrow> Failure msg)"

section \<open>Session Coordinator (background service worker, src/unnamed/part_000)\<close>

record bg =
  offscreenReady :: bool
  bg_sessionCode :: "string option"
  bg_isHost :: bool
  bg_peerCount :: int

text \<open>The badge text: a number's decimal form, or a fixed string.\<close>

datatype badge = BadgeNumber int | BadgeText string

datatype bg_effect =
    UpdateBadge badge string
  | SetPopupEnabled bool
  | NotifySessionStatus bool
  | NotifyNotification string
  | SendPeerCount int
  | ForwardSyncEvent sync_event string
  | StoreLastSession "string option" bool
  | RemoveLastSession
  | SendResponse response
  | SendUndefined
  | SendStatus status

definition default_colour :: string where
  "default_colour = ''#4CAF50''"

text \<open>\<open>handleOffscreenMessage(message)\<close>, one case per action.\<close>

definition handleOffscreenMessage :: "bg_message \<Rightarrow> bg \<Rightarrow> bg \<times> bg_effect list" where
  "handleOffscreenMessage m b =
     (case m of
        OffscreenReady \<Rightarrow> (b\<lparr>offscreenReady := True\<rparr>, [])
      | PeerReady i \<Rightarrow> (b, [])
      | PeerJoined i n \<Rightarrow>
          (b\<lparr>bg_peerCount := n\<rparr>,
           [UpdateBadge (BadgeNumber (n - 1)) default_colour,
            NotifyNotification ''Someone joined the session'',
            SendPeerCount n])
      | PeerLeft i n \<Rightarrow>
          (b\<lparr>bg_peerCount := n\<rparr>,
           [UpdateBadge (if n > 1 then BadgeNumber (n - 1) else BadgeText ''0'') default_colour,
            NotifyNotification ''Someone left the session'',
            SendPeerCount n])
      | PeerData d from \<Rightarrow> (b, [ForwardSyncEvent d from])
      | ConnectionStatus st \<Rightarrow>
          (if st = ''reconnecting'' then (b, [UpdateBadge (BadgeText ''!'') ''#ff9800''])
           else if st = ''closed''
           then (b\<lparr>bg_sessionCode := None\<rparr>,
                 [UpdateBadge (BadgeText []) ''#ff4444'', SetPopupEnabled False,
                  NotifySessionStatus False])
           else (b, [])))"

text \<open>The notifications of one Connection Manager step, handled in order.\<close>

fun deliver :: "cm_effect list \<Rightarrow> bg \<Rightarrow> bg" where
  "deliver [] b = b"
| "deliver (ToBackground m # es) b = deliver es (fst (handleOffscreenMessage m b))"
| "deliver (e # es) b = deliver es b"

text \<open>
  The three session handlers. Their argument is what \<open>await sendToOffscreen(...)\<close> gave:
  \<open>Inr\<close> the Connection Manager's reply, or \<open>Inl\<close> the message of the exception it threw.
\<close>

definition handleCreateSession :: "string + response \<Rightarrow> bg \<Rightarrow> bg \<times> bg_effect list" where
  "handleCreateSession res b =
     (case res of
        Inl err \<Rightarrow> (b, [SendResponse (Failure err)])
      | Inr result \<Rightarrow>
          (if success result
           then (b\<lparr>bg_sessionCode := code_of result, bg_isHost := True, bg_peerCount := 1\<rparr>,
                 [UpdateBadge (BadgeText ''0'') default_colour, SetPopupEnabled True,
                  NotifySessionStatus True, StoreLastSession (code_of result) True,
                  SendResponse result])
           else (b, [SendResponse result])))"

definition handleJoinSession :: "string + response \<Rightarrow> bg \<Rightarrow> bg \<times> bg_effect list" where
  "handleJoinSession res b =
     (case res of
        Inl err \<Rightarrow> (b, [SendResponse (Failure err)])
      | Inr result \<Rightarrow>
          (if success result
           then (b\<lparr>bg_sessionCode := code_of result, bg_isHost := False, bg_peerCount := 2\<rparr>,
                 [UpdateBadge (BadgeText ''1'') default_colour, SetPopupEnabled True,
                  NotifySessionStatus True, StoreLastSession (code_of result) False,
                  SendResponse result])
           else (b, [SendResponse result])))"


text \<open>
  \<open>handleGetStatus\<close>: \<open>None\<close> when there is no offscreen document, otherwise what
  \<open>await sendToOffscreen('get-status')\<close> gave.
\<close>

definition disconnected_status :: status where
  "disconnected_status =
     \<lparr>connected = False, status_sessionCode = None, status_isHost = False, peerCount = 0\<rparr>"

definition handleGetStatus :: "(string + status) option \<Rightarrow> bg \<Rightarrow> bg \<times> bg_effect list" where
  "handleGetStatus res b =
     (case res of
        None \<Rightarrow> (b, [SendStatus disconnected_status])
      | Some (Inl err) \<Rightarrow> (b, [SendStatus disconnected_status])
      | Some (Inr st) \<Rightarrow>
          (b\<lparr>bg_sessionCode := status_sessionCode st, bg_isHost := status_isHost st,
             bg_peerCount := peerCount st\<rparr>,
           [SendStatus st]))"


section \<open>Concrete states and inputs\<close>

text \<open>An element paused at 10 s, an agent bound to it, and \<open>play\<close> events from a peer.\<close>

definition v10 :: video where
  "v10 = \<lparr>currentTime = 10, paused = True, playbackRate = 1, clientWidth = 640,
          clientHeight = 360\<rparr>"

definition agent10 :: agent where
  "agent10 = \<lparr>activeVideo = Some v10, ignoreEvents = False, isBuffering = False,
              href = ''https://example.org/watch''\<rparr>"

definition play_at :: "number \<Rightarrow> sync_event" where
  "play_at t = \<lparr>etype = Play, time = Some t, speed = None, playing = None,
                nickname = Some ''Ann'', message = None, url = None\<rparr>"

text \<open>
  The double that the literal \<open>10.2\<close> denotes; an element paused at \<open>0.5 + 2^-53\<close> seconds
  and an agent bound to it.
\<close>

definition double_10_2 :: number where
  "double_10_2 = 2871044762448691 / 281474976710656"

definition v_half :: video where
  "v_half = \<lparr>currentTime = 1 / 2 + 1 / 2 ^ 53, paused = True, playbackRate = 1,
             clientWidth = 640, clientHeight = 360\<rparr>"

definition agent_half :: agent where
  "agent_half = \<lparr>activeVideo = Some v_half, ignoreEvents = False, isBuffering = False,
                 href = ''https://example.org/watch''\<rparr>"

text \<open>
  An element playing at rate 2 with an agent bound to it, and a \<open>sync-response\<close> that
  carries neither a position nor a speed.
\<close>

definition v_rate2 :: video where
  "v_rate2 = \<lparr>currentTime = 7, paused = False, playbackRate = 2, clientWidth = 640,
              clientHeight = 360\<rparr>"

definition agent_rate2 :: agent where
  "agent_rate2 = \<lparr>activeVideo = Some v_rate2, ignoreEvents = False, isBuffering = False,
                  href = ''https://example.org/watch''\<rparr>"

definition response_bare :: sync_event where
  "response_bare = \<lparr>etype = SyncResponse, time = None, speed = None, playing = Some True,
                     nickname = None, message = None, url = None\<rparr>"

text \<open>A random source that alternates between \<open>1/3\<close> and \<open>9/10\<close>.\<close>

definition rnd_third :: "nat \<Rightarrow> number" where
  "rnd_third j = (if even j then 1 / 3 else 9 / 10)"

text \<open>The Connection Manager as the module leaves it when it is loaded.\<close>

definition cm0 :: cm where
  "cm0 = \<lparr>peer = None, connections = [], sessionCode = None, isHost = False, links = [],
          listeners = []\<rparr>"

text \<open>
  Signalling servers: one that reports every identity as taken, and one that reports
  the first two identities as taken and accepts the third.
\<close>

definition always_taken :: "nat \<Rightarrow> peer_signal" where
  "always_taken n = SigError ''unavailable-id'' None"

definition third_free :: "nat \<Rightarrow> peer_signal" where
  "third_free n = (if n < 2 then SigError ''unavailable-id'' None else SigOpen ''videosync-host'')"

text \<open>
  A peer in the state \<open>{time = 42.3, playing = true, speed = 1.25}\<close>, a peer playing at
  5 s with playback rate 0 and the \<open>sync-response\<close> it sends, \<open>sync-response\<close> events with
  a given speed field.
\<close>

definition v_spec :: video where
  "v_spec = \<lparr>currentTime = 423 / 10, paused = False, playbackRate = 5 / 4, clientWidth = 640,
             clientHeight = 360\<rparr>"

definition v_rate0 :: video where
  "v_rate0 = \<lparr>currentTime = 5, paused = False, playbackRate = 0, clientWidth = 640,
              clientHeight = 360\<rparr>"

definition response_rate0 :: sync_event where
  "response_rate0 = \<lparr>etype = SyncResponse, time = Some 5, speed = Some 0, playing = Some True,
                      nickname = None, message = None, url = Some ''https://example.org/watch''\<rparr>"

definition response_with :: "number option \<Rightarrow> sync_event" where
  "response_with s = \<lparr>etype = SyncResponse, time = Some (423 / 10), speed = s,
                       playing = Some True, nickname = None, message = None, url = None\<rparr>"

text \<open>
  A host with four guests in its mapping, the last of which is no longer open, and the
  Coordinator's mirror of that session.
\<close>

definition host4 :: cm where
  "host4 = \<lparr>peer = Some \<lparr>peer_id = Some ''videosync-K7PQ4R'', disconnected = False,
                         destroyed = False\<rparr>,
            connections = [(''ann'', 0), (''bob'', 1), (''cy'', 2), (''dee'', 3)],
            sessionCode = Some ''K7PQ4R'', isHost = True,
            links = [\<lparr>conn_peer = ''ann'', conn_open = True\<rparr>,
                     \<lparr>conn_peer = ''bob'', conn_open = True\<rparr>,
                     \<lparr>conn_peer = ''cy'', conn_open = True\<rparr>,
                     \<lparr>conn_peer = ''dee'', conn_open = False\<rparr>],
            listeners = [3, 2, 1, 0]\<rparr>"

definition bg5 :: bg where
  "bg5 = \<lparr>offscreenReady = True, bg_sessionCode = Some ''K7PQ4R'', bg_isHost = True,
          bg_peerCount = 5\<rparr>"

text \<open>A signalling server that never answers.\<close>

definition never_answers :: "nat \<Rightarrow> peer_signal" where
  "never_answers n = SigTimeout"

text \<open>The Coordinator before any session.\<close>

definition bg0 :: bg where
  "bg0 = \<lparr>offscreenReady = True, bg_sessionCode = None, bg_isHost = False, bg_peerCount = 0\<rparr>"

text \<open>
  The Connection Manager after a session creation whose 15-second timer fired, a host
  right after its session was created, and a guest right after its join resolved.
\<close>

definition timed_out :: cm where
  "timed_out = \<lparr>peer = Some \<lparr>peer_id = Some ''videosync-L6L6L6'', disconnected = False,
                                destroyed = False\<rparr>,
                connections = [], sessionCode = Some ''L6L6L6'', isHost = True, links = [],
                listeners = []\<rparr>"

definition hosting :: cm where
  "hosting = \<lparr>peer = Some \<lparr>peer_id = Some ''videosync-K7PQ4R'', disconnected = False,
                              destroyed = False\<rparr>,
              connections = [], sessionCode = Some ''K7PQ4R'', isHost = True, links = [],
              listeners = []\<rparr>"

definition guest_joined :: cm where
  "guest_joined = \<lparr>peer = Some \<lparr>peer_id = None, disconnected = False, destroyed = False\<rparr>,
                   connections = [], sessionCode = Some ''K7PQ4R'', isHost = False,
                   links = [\<lparr>conn_peer = ''videosync-K7PQ4R'', conn_open = True\<rparr>],
                   listeners = [0]\<rparr>"

section \<open>Properties of the Sync Agent\<close>

lemma or_number_zero: "or_number (Some t) 0 = t"
  by (simp add: or_number_def)

subsection \<open>Rounding to double precision\<close>

lemma pow2_powi: "pow2 e = 2 powi e"
  by (simp add: pow2_def power_int_def field_simps)

lemma pow2_pos: "0 < pow2 e"
  by (simp add: pow2_powi)

lemma pow2_add: "pow2 (a + b) = pow2 a * pow2 b"
  by (simp add: pow2_powi power_int_add)

lemma pow2_mono: "a \<le> b \<Longrightarrow> pow2 a \<le> pow2 b"
  by (simp add: pow2_powi power_int_increasing)

lemma pow2_nat: "pow2 (int n) = 2 ^ n"
  by (simp add: pow2_def)

lemma bitlen_bounds:
  "0 < n \<Longrightarrow> 1 \<le> bitlen n \<and> 2 ^ nat (bitlen n - 1) \<le> n \<and> n < 2 ^ nat (bitlen n)"
proof (induction n rule: bitlen.induct)
  case (1 n)
  show ?case
  proof (cases "n div 2 \<le> 0")
    case True
    with "1.prems" have "n = 1" by linarith
    have "bitlen 0 = 0" by (subst bitlen.simps) simp
    then have "bitlen 1 = 1" by (subst bitlen.simps) simp
    with \<open>n = 1\<close> show ?thesis by simp
  next
    case False
    then have m: "0 < n div 2" by simp
    from "1.prems" have n: "\<not> n \<le> 0" by simp
    from "1.IH" [OF n m]
    have b: "1 \<le> bitlen (n div 2)" and lo: "2 ^ nat (bitlen (n div 2) - 1) \<le> n div 2"
      and hi: "n div 2 < 2 ^ nat (bitlen (n div 2))" by simp_all
    have e: "bitlen n = 1 + bitlen (n div 2)"
      using n by (subst bitlen.simps) simp
    from b have s: "nat (bitlen (n div 2)) = Suc (nat (bitlen (n div 2) - 1))" by simp
    have "2 ^ nat (bitlen (n div 2)) = 2 * (2::int) ^ nat (bitlen (n div 2) - 1)"
      by (subst s) simp
    with lo have l: "2 ^ nat (bitlen (n div 2)) \<le> n" by linarith
    from b have s2: "nat (1 + bitlen (n div 2)) = Suc (nat (bitlen (n div 2)))" by simp
    have "2 ^ nat (1 + bitlen (n div 2)) = 2 * (2::int) ^ nat (bitlen (n div 2))"
      by (subst s2) simp
    with hi have h: "n < 2 ^ nat (1 + bitlen (n div 2))" by linarith
    from b l h show ?thesis by (simp add: e)
  qed
qed

lemma bitlen_pow2:
  assumes "0 < n"
  shows "pow2 (bitlen n - 1) \<le> of_int n \<and> of_int n < pow2 (bitlen n)"
proof -
  from bitlen_bounds [OF assms]
  have b: "1 \<le> bitlen n" and lo: "2 ^ nat (bitlen n - 1) \<le> n" and hi: "n < 2 ^ nat (bitlen n)"
    by simp_all
  from b have "pow2 (bitlen n - 1) = 2 ^ nat (bitlen n - 1)" "pow2 (bitlen n) = 2 ^ nat (bitlen n)"
    by (simp_all add: pow2_def)
  moreover from lo have "(of_int (2 ^ nat (bitlen n - 1)) :: rat) \<le> of_int n"
    by (simp only: of_int_le_iff)
  moreover from hi have "(of_int n :: rat) < of_int (2 ^ nat (bitlen n))"
    by (simp only: of_int_less_iff)
  ultimately show ?thesis by simp
qed

lemma ilog2_bounds:
  assumes "0 < x"
  shows "pow2 (ilog2 x) \<le> x \<and> x < pow2 (ilog2 x + 1)"
proof -
  obtain p q where pq: "quotient_of x = (p, q)" by (cases "quotient_of x") auto
  then have q: "0 < q" and x: "x = of_int p / of_int q"
    by (auto dest: quotient_of_denom_pos quotient_of_div)
  with assms have p: "0 < p" by (simp add: zero_less_divide_iff)
  define d where "d = bitlen p - bitlen q"
  from bitlen_pow2 [OF p] have p1: "pow2 (bitlen p - 1) \<le> of_int p" and p2: "of_int p < pow2 (bitlen p)"
    by simp_all
  from bitlen_pow2 [OF q] have q1: "pow2 (bitlen q - 1) \<le> of_int q" and q2: "of_int q < pow2 (bitlen q)"
    by simp_all
  have qr: "(0::rat) < of_int q" using q by simp
  have "pow2 (d - 1) * of_int q \<le> pow2 (d - 1) * pow2 (bitlen q)"
    using q2 pow2_pos [of "d - 1"] by simp
  also have "\<dots> = pow2 (bitlen p - 1)"
    by (simp add: d_def pow2_add [symmetric])
  also have "\<dots> \<le> of_int p" by (rule p1)
  finally have lo: "pow2 (d - 1) \<le> x"
    using qr by (simp add: x pos_le_divide_eq)
  have "of_int p < pow2 (bitlen p)" by (rule p2)
  also have "\<dots> = pow2 (d + 1) * pow2 (bitlen q - 1)"
    by (simp add: d_def pow2_add [symmetric])
  also have "\<dots> \<le> pow2 (d + 1) * of_int q"
    using q1 pow2_pos [of "d + 1"] by simp
  finally have hi: "x < pow2 (d + 1)"
    using qr by (simp add: x pos_divide_less_eq)
  have i: "ilog2 x = (if pow2 d \<le> x then d else d - 1)"
    by (simp add: ilog2_def pq d_def Let_def)
  show ?thesis
  proof (cases "pow2 d \<le> x")
    case True
    with i hi show ?thesis by simp
  next
    case False
    with i lo show ?thesis by simp
  qed
qed

lemma round_even_le: "y \<le> of_int n \<Longrightarrow> round_even y \<le> n"
  unfolding round_even_def Let_def by (auto; linarith)

lemma round_even_ge: "of_int n \<le> y \<Longrightarrow> n \<le> round_even y"
  unfolding round_even_def Let_def by (auto; linarith)


lemma pow2_less_cancel: "pow2 a < pow2 b \<Longrightarrow> a < b"
  using pow2_mono [of b a] by (cases "a < b") auto

lemma pow2_half: "pow2 (- 1) = 1 / 2"
  by (simp add: pow2_def)

lemma pow2_int: "0 \<le> e \<Longrightarrow> pow2 e = of_int (2 ^ nat e)"
  by (simp add: pow2_def)

lemma abs_to_double:
  assumes "x \<noteq> 0"
  shows "\<bar>to_double x\<bar> = of_int (round_even (\<bar>x\<bar> / pow2 (ilog2 \<bar>x\<bar> - 52))) * pow2 (ilog2 \<bar>x\<bar> - 52)"
proof -
  let ?u = "pow2 (ilog2 \<bar>x\<bar> - 52)"
  have "(of_int 0 :: rat) \<le> \<bar>x\<bar> / ?u"
    using pow2_pos [of "ilog2 \<bar>x\<bar> - 52"] by simp
  then have "0 \<le> round_even (\<bar>x\<bar> / ?u)" by (rule round_even_ge)
  then have r: "\<bar>(of_int (round_even (\<bar>x\<bar> / ?u)) :: rat)\<bar> = of_int (round_even (\<bar>x\<bar> / ?u))"
    by simp
  from assms have "\<bar>sgn x\<bar> = 1" by (simp add: abs_sgn_eq)
  with assms r pow2_pos [of "ilog2 \<bar>x\<bar> - 52"] show ?thesis
    by (simp add: to_double_def Let_def abs_mult)
qed

lemma to_double_le_half:
  assumes "\<bar>x\<bar> \<le> 1 / 2"
  shows "\<bar>to_double x\<bar> \<le> 1 / 2"
proof (cases "x = 0")
  case True
  then show ?thesis by (simp add: to_double_def)
next
  case False
  define e where "e = ilog2 \<bar>x\<bar>"
  let ?u = "pow2 (e - 52)"
  from False have pos: "0 < \<bar>x\<bar>" by simp
  from ilog2_bounds [OF pos] assms have "pow2 e \<le> pow2 (- 1)"
    by (simp add: e_def pow2_half)
  moreover have "pow2 (- 1) < pow2 0" by (simp add: pow2_def)
  ultimately have "pow2 e < pow2 0" by simp
  then have e: "e < 0" by (rule pow2_less_cancel)
  then have n: "0 \<le> 51 - e" by simp
  have u: "0 < ?u" by (rule pow2_pos)
  have "pow2 (51 - e) * ?u = pow2 (- 1)"
    by (simp add: pow2_add [symmetric])
  then have prod: "pow2 (51 - e) * ?u = 1 / 2" by (simp add: pow2_half)
  then have "\<bar>x\<bar> \<le> pow2 (51 - e) * ?u" using assms by simp
  then have "\<bar>x\<bar> / ?u \<le> pow2 (51 - e)" using u by (simp add: pos_divide_le_eq)
  then have "\<bar>x\<bar> / ?u \<le> of_int (2 ^ nat (51 - e))" by (simp only: pow2_int [OF n])
  then have "round_even (\<bar>x\<bar> / ?u) \<le> 2 ^ nat (51 - e)" by (rule round_even_le)
  then have "(of_int (round_even (\<bar>x\<bar> / ?u)) :: rat) \<le> of_int (2 ^ nat (51 - e))"
    by (simp only: of_int_le_iff)
  then have "of_int (round_even (\<bar>x\<bar> / ?u)) \<le> pow2 (51 - e)" by (simp only: pow2_int [OF n])
  then have "of_int (round_even (\<bar>x\<bar> / ?u)) * ?u \<le> pow2 (51 - e) * ?u"
    using u by (simp add: mult_right_mono)
  with prod have "of_int (round_even (\<bar>x\<bar> / ?u)) * ?u \<le> 1 / 2" by linarith
  then show ?thesis by (simp only: abs_to_double [OF False] e_def)
qed

lemma to_double_gt_half:
  assumes "1 / 2 + 1 / 2 ^ 53 \<le> \<bar>x\<bar>"
  shows "1 / 2 < \<bar>to_double x\<bar>"
proof -
  have "(0::rat) < 1 / 2 + 1 / 2 ^ 53" by simp
  with assms have pos: "0 < \<bar>x\<bar>" by linarith
  then have nz: "x \<noteq> 0" by simp
  define e where "e = ilog2 \<bar>x\<bar>"
  let ?u = "pow2 (e - 52)"
  have u: "0 < ?u" by (rule pow2_pos)
  from ilog2_bounds [OF pos] have lo: "pow2 e \<le> \<bar>x\<bar>" and hi: "\<bar>x\<bar> < pow2 (e + 1)"
    by (simp_all add: e_def)
  have "pow2 (- 1) < \<bar>x\<bar>" using assms by (simp add: pow2_half) 
  with hi have "pow2 (- 1) < pow2 (e + 1)" by simp
  then have e: "- 1 \<le> e" using pow2_less_cancel [of "- 1" "e + 1"] by simp
  show ?thesis
  proof (cases "e = - 1")
    case True
    then have uv: "?u = 1 / 2 ^ 53" by (simp add: pow2_def)
    from assms have "(1 / 2 + 1 / 2 ^ 53) * 2 ^ 53 \<le> \<bar>x\<bar> * 2 ^ 53"
      by (simp only: mult_le_cancel_right_pos zero_less_power zero_less_numeral)
    then have "of_int (2 ^ 52 + 1) \<le> \<bar>x\<bar> / ?u" by (simp add: uv)
    then have "2 ^ 52 + 1 \<le> round_even (\<bar>x\<bar> / ?u)" by (rule round_even_ge)
    then have "(of_int (2 ^ 52 + 1) :: rat) \<le> of_int (round_even (\<bar>x\<bar> / ?u))"
      by (simp only: of_int_le_iff)
    then have "of_int (2 ^ 52 + 1) * ?u \<le> of_int (round_even (\<bar>x\<bar> / ?u)) * ?u"
      using u by (simp only: mult_le_cancel_right_pos)
    moreover have "1 / 2 < of_int (2 ^ 52 + 1) * ?u" by (simp add: uv)
    ultimately have "1 / 2 < of_int (round_even (\<bar>x\<bar> / ?u)) * ?u" by linarith
    then show ?thesis by (simp only: abs_to_double [OF nz] e_def)
  next
    case False
    with e have e0: "0 \<le> e" by simp
    have "pow2 52 * ?u = pow2 e" by (simp add: pow2_add [symmetric])
    with lo have "pow2 52 * ?u \<le> \<bar>x\<bar>" by simp
    then have "pow2 52 \<le> \<bar>x\<bar> / ?u" using u by (simp add: pos_le_divide_eq)
    then have "of_int (2 ^ 52) \<le> \<bar>x\<bar> / ?u" by (simp add: pow2_def)
    then have "2 ^ 52 \<le> round_even (\<bar>x\<bar> / ?u)" by (rule round_even_ge)
    then have "(of_int (2 ^ 52) :: rat) \<le> of_int (round_even (\<bar>x\<bar> / ?u))"
      by (simp only: of_int_le_iff)
    then have "of_int (2 ^ 52) * ?u \<le> of_int (round_even (\<bar>x\<bar> / ?u)) * ?u"
      using u by (simp only: mult_le_cancel_right_pos)
    moreover have "of_int (2 ^ 52) * ?u = pow2 e"
      using \<open>pow2 52 * ?u = pow2 e\<close> by (simp add: pow2_def)
    moreover have "pow2 0 \<le> pow2 e" using e0 by (rule pow2_mono)
    then have "1 / 2 < pow2 e" by (simp add: pow2_def)
    ultimately have "1 / 2 < of_int (round_even (\<bar>x\<bar> / ?u)) * ?u" by linarith
    then show ?thesis by (simp only: abs_to_double [OF nz] e_def)
  qed
qed

subsection \<open>Remote events\<close>

text \<open>
  C1, as the code has it. A \<open>play\<close> or \<open>pause\<close> event that carries a position \<open>t\<close>, applied
  to the element \<open>v\<close>: the agent seeks to \<open>t\<close> exactly when the difference of the two
  positions as JavaScript computes it, the exact difference rounded to double precision,
  exceeds half a second in absolute value, and then calls \<open>play()\<close> or \<open>pause()\<close>; the seek,
  when there is one, is the first operation on the element. A seek is issued only if the
  exact difference exceeds half a second, and always if it is at least \<open>0.5 + 2^-53\<close>.
\<close>

theorem applySync_play_pause_threshold:
  assumes "resolveVideo page a = Some v"
    and "etype d = Play \<or> etype d = Pause"
    and "time d = Some t"
  shows "applySync page a d =
           (a\<lparr>activeVideo :=
                Some ((if \<bar>to_double (currentTime v - t)\<bar> > 1 / 2 then v\<lparr>currentTime := t\<rparr>
                       else v)
                        \<lparr>paused := (etype d = Pause)\<rparr>),
              ignoreEvents := True\<rparr>,
            (if \<bar>to_double (currentTime v - t)\<bar> > 1 / 2 then [SetCurrentTime t] else [])
              @ [if etype d = Play then CallPlay else CallPause,
                 ShowToast (if etype d = Play then Played (or_string (nickname d) ''Someone'')
                            else PausedBy (or_string (nickname d) ''Someone'')) PeerToast,
                 SetTimeout 200],
            None)
         \<and> (\<bar>to_double (currentTime v - t)\<bar> > 1 / 2 \<longrightarrow> \<bar>currentTime v - t\<bar> > 1 / 2)
         \<and> (1 / 2 + 1 / 2 ^ 53 \<le> \<bar>currentTime v - t\<bar> \<longrightarrow>
                \<bar>to_double (currentTime v - t)\<bar> > 1 / 2)"
proof -
  have "applySync page a d =
           (a\<lparr>activeVideo :=
                Some ((if \<bar>to_double (currentTime v - t)\<bar> > 1 / 2 then v\<lparr>currentTime := t\<rparr>
                       else v)
                        \<lparr>paused := (etype d = Pause)\<rparr>),
              ignoreEvents := True\<rparr>,
            (if \<bar>to_double (currentTime v - t)\<bar> > 1 / 2 then [SetCurrentTime t] else [])
              @ [if etype d = Play then CallPlay else CallPause,
                 ShowToast (if etype d = Play then Played (or_string (nickname d) ''Someone'')
                            else PausedBy (or_string (nickname d) ''Someone'')) PeerToast,
                 SetTimeout 200],
            None)"
    using assms
    by (auto simp: applySync_def applyToVideo_def seek_if_drifted_def set_currentTime_def
        js_minus_def SYNC_THRESHOLD_def or_number_zero video_play_def video_pause_def Let_def)
  moreover have "\<bar>to_double (currentTime v - t)\<bar> > 1 / 2 \<longrightarrow> \<bar>currentTime v - t\<bar> > 1 / 2"
    using to_double_le_half [of "currentTime v - t"] by linarith
  moreover have "1 / 2 + 1 / 2 ^ 53 \<le> \<bar>currentTime v - t\<bar> \<longrightarrow>
                \<bar>to_double (currentTime v - t)\<bar> > 1 / 2"
    using to_double_gt_half [of "currentTime v - t"] by blast
  ultimately show ?thesis by blast
qed

text \<open>
  The two cases of the specification: at local position 10.0, \<open>play\<close> with \<open>time = 10.2\<close>
  triggers play without a seek, and \<open>play\<close> with \<open>time = 12.0\<close> seeks to 12.0 before play.
\<close>

theorem applySync_play_pause_threshold_witness:
  "to_double (102 / 10) = double_10_2
   \<and> fst (snd (applySync [] agent10 (play_at double_10_2))) =
       [CallPlay, ShowToast (Played ''Ann'') PeerToast, SetTimeout 200]
   \<and> fst (snd (applySync [] agent10 (play_at 12))) =
       [SetCurrentTime 12, CallPlay, ShowToast (Played ''Ann'') PeerToast, SetTimeout 200]"
proof -
  have l: "to_double (102 / 10) = double_10_2" by code_simp
  have r: "resolveVideo [] agent10 = Some v10"
    by (simp add: resolveVideo_def agent10_def)
  have p: "etype (play_at x) = Play \<or> etype (play_at x) = Pause" for x
    by (simp add: play_at_def)
  have t: "time (play_at x) = Some x" for x
    by (simp add: play_at_def)
  have n: "nickname (play_at x) = Some ''Ann''" for x
    by (simp add: play_at_def)
  have near: "\<not> \<bar>to_double (currentTime v10 - double_10_2)\<bar> > 1 / 2" by code_simp
  have far: "\<bar>to_double (currentTime v10 - 12)\<bar> > 1 / 2" by code_simp
  from applySync_play_pause_threshold [OF r p t, of double_10_2] near
  have a: "fst (snd (applySync [] agent10 (play_at double_10_2))) =
       [CallPlay, ShowToast (Played ''Ann'') PeerToast, SetTimeout 200]"
    by (simp add: n or_string_def play_at_def)
  from applySync_play_pause_threshold [OF r p t, of 12] far
  have b: "fst (snd (applySync [] agent10 (play_at 12))) =
       [SetCurrentTime 12, CallPlay, ShowToast (Played ''Ann'') PeerToast, SetTimeout 200]"
    by (simp add: n or_string_def play_at_def)
  from l a b show ?thesis by blast
qed

text \<open>
  At local position \<open>0.5 + 2^-53\<close>, \<open>play\<close> with \<open>time = 3 * 2^-55\<close>: both positions are
  doubles, their exact difference \<open>0.5 + 2^-55\<close> exceeds half a second, the computed
  difference is \<open>0.5\<close>, and play is triggered without a seek.
\<close>

theorem applySync_no_seek_above_threshold:
  "to_double (currentTime v_half) = currentTime v_half
   \<and> to_double (3 / 2 ^ 55) = 3 / 2 ^ 55
   \<and> 1 / 2 < \<bar>currentTime v_half - 3 / 2 ^ 55\<bar>
   \<and> js_minus (currentTime v_half) (3 / 2 ^ 55) = 1 / 2
   \<and> fst (snd (applySync [] agent_half (play_at (3 / 2 ^ 55)))) =
       [CallPlay, ShowToast (Played ''Ann'') PeerToast, SetTimeout 200]"
proof -
  have a1: "to_double (currentTime v_half) = currentTime v_half" by code_simp
  have a2: "to_double (3 / 2 ^ 55) = 3 / 2 ^ 55" by code_simp
  have a3: "1 / 2 < \<bar>currentTime v_half - 3 / 2 ^ 55\<bar>" by (simp add: v_half_def)
  have a4: "js_minus (currentTime v_half) (3 / 2 ^ 55) = 1 / 2" by code_simp
  have a5: "fst (snd (applySync [] agent_half (play_at (3 / 2 ^ 55)))) =
       [CallPlay, ShowToast (Played ''Ann'') PeerToast, SetTimeout 200]"
    by code_simp
  from a1 a2 a3 a4 a5 show ?thesis by blast
qed

text \<open>
  C10, as the code has it. Applying a \<open>sync-response\<close> that carries a position: the
  playback rate becomes 1 when the speed field is absent or 0, and the transmitted speed
  otherwise; the rate is set on the element by an assignment, and the call ends without
  an exception.
\<close>

theorem applySync_response_speed_default:
  assumes "resolveVideo page a = Some v"
    and "etype d = SyncResponse"
    and "time d = Some t"
  shows "map_option playbackRate (activeVideo (fst (applySync page a d)))
           = Some (case speed d of None \<Rightarrow> 1 | Some r \<Rightarrow> if r = 0 then 1 else r)
         \<and> SetPlaybackRate (case speed d of None \<Rightarrow> 1 | Some r \<Rightarrow> if r = 0 then 1 else r)
             \<in> set (fst (snd (applySync page a d)))
         \<and> snd (snd (applySync page a d)) = None"
  using assms
  by (simp add: applySync_def applyToVideo_def set_currentTime_def set_playbackRate_def
      or_number_def video_play_def video_pause_def Let_def split: option.splits)

theorem applySync_response_speed_default_witness:
  "map_option playbackRate (activeVideo (fst (applySync [] agent10 (response_with None))))
     = Some 1
   \<and> map_option playbackRate (activeVideo (fst (applySync [] agent10 (response_with (Some 0)))))
     = Some 1
   \<and> map_option playbackRate
       (activeVideo (fst (applySync [] agent10 (response_with (Some 1.25))))) = Some 1.25"
  using applySync_response_speed_default [of "[]" agent10 v10 "response_with None" "423 / 10"]
    applySync_response_speed_default [of "[]" agent10 v10 "response_with (Some 0)" "423 / 10"]
    applySync_response_speed_default [of "[]" agent10 v10 "response_with (Some 1.25)" "423 / 10"]
  by (simp add: resolveVideo_def agent10_def response_with_def)

text \<open>
  A \<open>sync-response\<close> without a position and without a speed, applied to an element at
  rate 2: the assignment of the position comes first and throws, so the rate is not set
  and stays 2.
\<close>

theorem applySync_response_without_time:
  "speed response_bare = None
   \<and> applySync [] agent_rate2 response_bare =
        (agent_rate2\<lparr>ignoreEvents := True\<rparr>, [], Some TypeError)
   \<and> map_option playbackRate (activeVideo (fst (applySync [] agent_rate2 response_bare)))
        = Some 2"
  by (simp add: applySync_def resolveVideo_def applyToVideo_def set_currentTime_def
      agent_rate2_def v_rate2_def response_bare_def Let_def)

text \<open>
  C6, as the code has it. On a \<open>sync-request\<close> the agent sends a \<open>sync-response\<close> that
  carries exactly the element's position, its playing flag and its playback rate.
  Applying a \<open>sync-response\<close> that carries a position, a playing flag and a speed other
  than 0 sets the element's position, rate and paused flag to exactly these, and applying
  the same response again leaves the agent as it is.
\<close>

theorem applySync_catch_up:
  assumes "resolveVideo page a = Some v"
  shows "(etype d = SyncRequest \<longrightarrow>
            fst (snd (applySync page a d)) =
              [SendSyncResponse \<lparr>etype = SyncResponse, time = Some (currentTime v),
                 speed = Some (playbackRate v), playing = Some (\<not> paused v),
                 nickname = None, message = None, url = Some (href a)\<rparr>,
               SetTimeout 200])
         \<and> (etype d = SyncResponse \<and> time d = Some t \<and> speed d = Some r \<and> r \<noteq> 0
              \<and> playing d = Some p \<longrightarrow>
            activeVideo (fst (applySync page a d))
              = Some (v\<lparr>currentTime := t, playbackRate := r, paused := \<not> p\<rparr>)
            \<and> fst (applySync page (fst (applySync page a d)) d) = fst (applySync page a d))"
  using assms
  by (auto simp: applySync_def applyToVideo_def set_currentTime_def set_playbackRate_def
      or_number_def video_play_def video_pause_def resolveVideo_def truthy_def Let_def
      split: option.splits)

text \<open>
  The state of the specification, \<open>{time = 42.3, playing = true, speed = 1.25}\<close>: the
  response carries these values, and an idle element that applies it takes them.
\<close>

theorem applySync_catch_up_witness:
  "fst (snd (applySync [] (agent10\<lparr>activeVideo := Some v_spec\<rparr>) sync_request)) =
     [SendSyncResponse
        \<lparr>etype = SyncResponse, time = Some 42.3, speed = Some 1.25, playing = Some True,
         nickname = None, message = None, url = Some ''https://example.org/watch''\<rparr>,
      SetTimeout 200]
   \<and> activeVideo (fst (applySync [] agent10 (response_with (Some 1.25))))
       = Some (v10\<lparr>currentTime := 42.3, playbackRate := 1.25, paused := False\<rparr>)
   \<and> fst (applySync [] (fst (applySync [] agent10 (response_with (Some 1.25))))
            (response_with (Some 1.25)))
       = fst (applySync [] agent10 (response_with (Some 1.25)))"
  using applySync_catch_up [of "[]" "agent10\<lparr>activeVideo := Some v_spec\<rparr>" v_spec sync_request]
    applySync_catch_up [of "[]" agent10 v10 "response_with (Some 1.25)" "42.3" "1.25" True]
  by (simp add: resolveVideo_def agent10_def response_with_def sync_request_def v10_def v_spec_def)

text \<open>
  A peer whose playback rate is 0 answers a \<open>sync-request\<close> with speed 0; the element
  that applies this response ends with rate 1, not 0.
\<close>

theorem applySync_rate0_not_restored:
  "fst (snd (applySync [] (agent10\<lparr>activeVideo := Some v_rate0\<rparr>) sync_request))
     = [SendSyncResponse response_rate0, SetTimeout 200]
   \<and> speed response_rate0 = Some 0
   \<and> map_option playbackRate (activeVideo (fst (applySync [] agent10 response_rate0))) = Some 1"
  by (simp add: applySync_def applyToVideo_def set_currentTime_def set_playbackRate_def
      or_number_def video_play_def video_pause_def resolveVideo_def truthy_def Let_def
      agent10_def v10_def v_rate0_def response_rate0_def sync_request_def)

section \<open>Properties of the Connection Manager\<close>

subsection \<open>Session codes\<close>

lemma length_chars: "length chars = 32"
  by (simp add: chars_def)

lemma charAt_unit:
  fixes r :: number
  assumes "0 \<le> r" "r < 1"
  shows "\<exists>x \<in> set chars. charAt chars \<lfloor>r * of_nat (length chars)\<rfloor> = [x]"
proof -
  let ?i = "\<lfloor>r * 32\<rfloor>"
  have "0 \<le> r * 32" using assms by simp
  then have lo: "0 \<le> ?i" by simp
  have "r * 32 < 32" using assms by simp
  then have hi: "?i < 32" by (simp add: floor_less_iff)
  from lo hi have "nat ?i < 32" by linarith
  then have "chars ! nat ?i \<in> set chars" by (simp add: length_chars)
  moreover have "charAt chars ?i = [chars ! nat ?i]"
    using lo hi by (simp add: charAt_def length_chars)
  ultimately show ?thesis by (simp add: length_chars)
qed

lemma code_loop_shape:
  assumes "\<forall>j. 0 \<le> rnd j \<and> rnd j < 1"
  shows "i \<le> 6 \<Longrightarrow> length (code_loop rnd k i code) = length code + (6 - i)
          \<and> set (code_loop rnd k i code) \<subseteq> set code \<union> set chars"
  using assms
proof (induction rnd k i code rule: code_loop.induct)
  case (1 rnd k i code)
  show ?case
  proof (cases "i < 6")
    case True
    from "1.prems" obtain x where x: "x \<in> set chars"
      "charAt chars \<lfloor>rnd (k + i) * of_nat (length chars)\<rfloor> = [x]"
      using charAt_unit by blast
    from True have "i + 1 \<le> 6" by simp
    from "1.IH" [OF True this "1.prems"(2)] x True show ?thesis
      by (subst code_loop.simps, subst (2) code_loop.simps) auto
  next
    case False
    then show ?thesis using "1.prems" by simp
  qed
qed

text \<open>
  C8, as the code has it. Whatever \<open>Math.random()\<close> returns (numbers in \<open>[0, 1)\<close>), the
  session code has six characters, each of the alphabet
  \<open>ABCDEFGHJKLMNPQRSTUVWXYZ23456789\<close>; the alphabet has 32 symbols, all different, and
  none of them is \<open>I\<close>, \<open>O\<close>, \<open>0\<close> or \<open>1\<close>.
\<close>

theorem generateSessionCode_alphabet:
  assumes "\<forall>j. 0 \<le> rnd j \<and> rnd j < 1"
  shows "length (generateSessionCode rnd k) = 6
         \<and> set (generateSessionCode rnd k) \<subseteq> set chars
         \<and> chars = ''ABCDEFGHJKLMNPQRSTUVWXYZ23456789''
         \<and> length chars = 32 \<and> distinct chars
         \<and> set chars \<inter> set ''IO01'' = {}"
proof -
  from code_loop_shape [OF assms, of 0 k "[]"]
  have "length (generateSessionCode rnd k) = 6"
    and "set (generateSessionCode rnd k) \<subseteq> set chars"
    by (simp_all add: generateSessionCode_def)
  moreover have "length chars = 32 \<and> distinct chars \<and> set chars \<inter> set ''IO01'' = {}"
    by (simp add: chars_def)
  ultimately show ?thesis by (simp add: chars_def)
qed

theorem generateSessionCode_alphabet_witness:
  "generateSessionCode rnd_third 0 = ''L6L6L6''
   \<and> length (generateSessionCode rnd_third 0) = 6
   \<and> set (generateSessionCode rnd_third 0) \<subseteq> set chars"
proof -
  have "\<forall>j. 0 \<le> rnd_third j \<and> rnd_third j < 1" by (simp add: rnd_third_def)
  from generateSessionCode_alphabet [OF this, of 0]
  have "length (generateSessionCode rnd_third 0) = 6
   \<and> set (generateSessionCode rnd_third 0) \<subseteq> set chars" by simp
  moreover have "generateSessionCode rnd_third 0 = ''L6L6L6''" by code_simp
  ultimately show ?thesis by simp
qed

text \<open>The alphabet of the code does not have 33 symbols, counted with or without repetition.\<close>

theorem chars_not_33: "length chars \<noteq> 33 \<and> card (set chars) \<noteq> 33"
proof -
  have "distinct chars" by (simp add: chars_def)
  then have "card (set chars) = length chars" by (rule distinct_card)
  then show ?thesis by (simp add: length_chars)
qed

subsection \<open>Session creation\<close>

lemma createSession_attempt_result:
  "createSession_attempt rnd sig n s = (s3, es, code, r) \<Longrightarrow>
     r = init_result sig \<and> code = generateSessionCode rnd (6 * n)"
  by (auto simp: createSession_attempt_def initPeer_def Let_def split: prod.splits)

lemma createSession_retry:
  assumes "collides (sigs n)"
  shows "createSession rnd sigs n acc s =
           createSession rnd sigs (Suc n) (acc @ fst (snd (createSession_attempt rnd (sigs n) n s)))
             (fst (createSession_attempt rnd (sigs n) n s))"
proof -
  obtain s3 es code r where a: "createSession_attempt rnd (sigs n) n s = (s3, es, code, r)"
    by (cases "createSession_attempt rnd (sigs n) n s") auto
  from createSession_attempt_result [OF a] assms
  have "r = Inl ''Session code already in use''" by (simp add: collides_def)
  with a show ?thesis by (subst createSession.simps) simp
qed

lemma createSession_settle:
  assumes "\<not> collides (sigs n)"
  shows "\<exists>s' es. createSession rnd sigs n acc s =
           Some (s', es, case init_result (sigs n) of
                           Inr i \<Rightarrow> SessionOk (generateSessionCode rnd (6 * n)) True
                         | Inl msg \<Rightarrow> Failure msg)"
proof -
  obtain s3 es code r where a: "createSession_attempt rnd (sigs n) n s = (s3, es, code, r)"
    by (cases "createSession_attempt rnd (sigs n) n s") auto
  from createSession_attempt_result [OF a] assms
  have "r = init_result (sigs n)" "code = generateSessionCode rnd (6 * n)"
    "r \<noteq> Inl ''Session code already in use''" by (simp_all add: collides_def)
  with a show ?thesis by (subst createSession.simps) (auto split: sum.splits)
qed

lemma createSession_returns_after:
  assumes "\<forall>k<m. collides (sigs (n + k))" and "\<not> collides (sigs (n + m))"
  shows "\<exists>s' es. createSession rnd sigs n acc s =
           Some (s', es, case init_result (sigs (n + m)) of
                           Inr i \<Rightarrow> SessionOk (generateSessionCode rnd (6 * (n + m))) True
                         | Inl msg \<Rightarrow> Failure msg)"
  using assms
proof (induction m arbitrary: n acc s)
  case 0
  then show ?case using createSession_settle [of sigs n rnd acc s]
    by (simp cong: sum.case_cong)
next
  case (Suc m)
  from Suc.prems(1) have c: "collides (sigs n)" by (metis add.right_neutral zero_less_Suc)
  from Suc.prems(1) have "\<forall>k<m. collides (sigs (Suc n + k))" by auto
  moreover from Suc.prems(2) have "\<not> collides (sigs (Suc n + m))" by simp
  ultimately have "\<exists>s' es. createSession rnd sigs (Suc n)
        (acc @ fst (snd (createSession_attempt rnd (sigs n) n s)))
        (fst (createSession_attempt rnd (sigs n) n s)) =
           Some (s', es, case init_result (sigs (Suc n + m)) of
                           Inr i \<Rightarrow> SessionOk (generateSessionCode rnd (6 * (Suc n + m))) True
                         | Inl msg \<Rightarrow> Failure msg)"
    by (rule Suc.IH)
  then show ?case by (simp add: createSession_retry [of sigs n, OF c] cong: sum.case_cong)
qed

lemma createSession_Some_settles:
  assumes "createSession rnd sigs n acc s = Some y"
  shows "\<exists>k. \<not> collides (sigs (n + k))"
proof (induction rule: createSession.raw_induct [OF _ assms])
  case (1 createSession' rnd sigs n acc s y)
  note IH = "1"(1) and body = "1"(2)
  show ?case
  proof (cases "collides (sigs n)")
    case True
    obtain s3 es code r where a: "createSession_attempt rnd (sigs n) n s = (s3, es, code, r)"
      by (cases "createSession_attempt rnd (sigs n) n s") auto
    from createSession_attempt_result [OF a] True
    have "r = Inl ''Session code already in use''" by (simp add: collides_def)
    with body a have "createSession' rnd sigs (Suc n) (acc @ es) s3 = Some y"
      by simp
    from IH [OF this] obtain k where "\<not> collides (sigs (Suc n + k))" by blast
    then have "\<not> collides (sigs (n + Suc k))" by simp
    then show ?thesis by blast
  next
    case False
    then have "\<not> collides (sigs (n + 0))" by simp
    then show ?thesis by blast
  qed
qed


text \<open>
  C4, as the code has it. \<open>createSession\<close> starts a new attempt after every collision and
  has no bound on their number: it returns exactly when some attempt ends in something
  other than a collision, with the result of the first such attempt (the session under
  that attempt's fresh code, or that attempt's error); when every attempt collides it
  never returns.
\<close>

theorem createSession_unbounded_retry:
  "((createSession rnd sigs n acc s = None) = (\<forall>k. collides (sigs (n + k))))
   \<and> ((\<forall>k<m. collides (sigs (n + k))) \<and> \<not> collides (sigs (n + m)) \<longrightarrow>
        (\<exists>s' es. createSession rnd sigs n acc s =
           Some (s', es, case init_result (sigs (n + m)) of
                           Inr i \<Rightarrow> SessionOk (generateSessionCode rnd (6 * (n + m))) True
                         | Inl msg \<Rightarrow> Failure msg)))"
proof (intro conjI impI iffI)
  assume none: "createSession rnd sigs n acc s = None"
  show "\<forall>k. collides (sigs (n + k))"
  proof (rule ccontr)
    assume "\<not> (\<forall>k. collides (sigs (n + k)))"
    then obtain k where k: "\<not> collides (sigs (n + k))" by blast
    define j where "j = (LEAST i. \<not> collides (sigs (n + i)))"
    from k have "\<not> collides (sigs (n + j))" unfolding j_def by (rule LeastI)
    moreover have "\<forall>i<j. collides (sigs (n + i))"
      unfolding j_def using not_less_Least by blast
    ultimately obtain s' es r where "createSession rnd sigs n acc s = Some (s', es, r)"
      using createSession_returns_after [of j sigs n rnd acc s] by blast
    with none show False by simp
  qed
next
  assume all: "\<forall>k. collides (sigs (n + k))"
  show "createSession rnd sigs n acc s = None"
  proof (cases "createSession rnd sigs n acc s")
    case None
    then show ?thesis .
  next
    case (Some y)
    from createSession_Some_settles [OF this] all show ?thesis by blast
  qed
next
  assume "(\<forall>k<m. collides (sigs (n + k))) \<and> \<not> collides (sigs (n + m))"
  then show "\<exists>s' es. createSession rnd sigs n acc s =
           Some (s', es, case init_result (sigs (n + m)) of
                           Inr i \<Rightarrow> SessionOk (generateSessionCode rnd (6 * (n + m))) True
                         | Inl msg \<Rightarrow> Failure msg)"
    using createSession_returns_after [of m sigs n rnd acc s] by blast
qed

text \<open>
  Two collisions and then a free identity: the third attempt's code is the session's.
\<close>

theorem createSession_unbounded_retry_witness:
  "createSession rnd_third third_free 0 [] cm0 \<noteq> None
   \<and> (\<exists>s' es. createSession rnd_third third_free 0 [] cm0 =
         Some (s', es, SessionOk (generateSessionCode rnd_third 12) True))"
proof -
  have c: "(\<forall>k<2. collides (third_free (0 + k))) \<and> \<not> collides (third_free (0 + 2))"
    by (simp add: collides_def third_free_def init_result_def peer_error_message_def)
  from createSession_unbounded_retry [of rnd_third third_free 0 "[]" cm0 2] c
  have "\<exists>s' es. createSession rnd_third third_free 0 [] cm0 =
         Some (s', es, case init_result (third_free (0 + 2)) of
                         Inr i \<Rightarrow> SessionOk (generateSessionCode rnd_third (6 * (0 + 2))) True
                       | Inl msg \<Rightarrow> Failure msg)"
    by blast
  moreover have "(case init_result (third_free (0 + 2)) of
                    Inr i \<Rightarrow> SessionOk (generateSessionCode rnd_third (6 * (0 + 2))) True
                  | Inl msg \<Rightarrow> Failure msg)
                 = SessionOk (generateSessionCode rnd_third 12) True"
    by (simp add: third_free_def init_result_def)
  ultimately show ?thesis by auto
qed

text \<open>
  A signalling server that reports every identity as taken: \<open>createSession\<close> does not
  return.
\<close>

theorem createSession_never_returns: "createSession rnd_third always_taken 0 [] cm0 = None"
proof (cases "createSession rnd_third always_taken 0 [] cm0")
  case None
  then show ?thesis .
next
  case (Some y)
  from createSession_Some_settles [OF this] show ?thesis
    by (simp add: collides_def always_taken_def init_result_def peer_error_message_def)
qed

subsection \<open>Relay\<close>

text \<open>The handlers keep every entry of the mapping under its own connection's peer.\<close>

lemma Map_set_keys: "set (Map_set k v m) \<subseteq> insert (k, v) (set m)"
  by (induction m) (auto split: if_splits)

lemma keyed_onOpen:
  assumes "keyed s" "c < length (links s)"
  shows "keyed (fst (conn_onOpen c s))"
  using assms Map_set_keys [of "peer_of s c" c "connections s"]
  by (auto simp: keyed_def conn_onOpen_def peer_of_def list_all_iff Let_def)

lemma keyed_onClose: "keyed s \<Longrightarrow> keyed (fst (conn_onClose c s))"
  by (auto simp: keyed_def conn_onClose_def peer_of_def list_all_iff Let_def Map_delete_def)

lemma keyed_onError: "keyed s \<Longrightarrow> keyed (fst (conn_onError c s))"
  by (auto simp: keyed_def conn_onError_def peer_of_def list_all_iff Map_delete_def)

text \<open>
  C2. A host that holds more than one open link and receives an event on the connection
  \<open>c\<close> notifies the Coordinator and then sends the same event once to every open link of
  its mapping that is stored under another peer than \<open>c\<close>'s, in the mapping's order; nothing
  is sent on \<open>c\<close> itself.
\<close>

theorem conn_onData_relay:
  assumes "isHost s" and "length (open_links s) > 1" and "keyed s"
    and "c < length (links s)" and "c \<in> set (listeners s)"
  shows "emit c (EvData d) s =
           (s, ToBackground (PeerData d (peer_of s c)) # map (\<lambda>k. ConnSend k d) (relay_targets s c))
         \<and> relay_targets s c = map snd (filter (\<lambda>(i, k). i \<noteq> peer_of s c) (open_links s))
         \<and> set (relay_targets s c) =
             {k. \<exists>i. (i, k) \<in> set (connections s) \<and> link_open s k \<and> i \<noteq> peer_of s c}
         \<and> (\<forall>e. ConnSend c e \<notin> set (snd (emit c (EvData d) s)))"
proof -
  have "length (open_links s) \<le> length (connections s)"
    by (simp add: open_links_def)
  with assms(2) have size: "Map_size (connections s) > 1"
    by (simp add: Map_size_def)
  have t: "relay_targets s c = map snd (filter (\<lambda>(i, k). i \<noteq> peer_of s c) (open_links s))"
    by (simp add: relay_targets_def open_links_def conj_commute case_prod_unfold)
  have m: "set (relay_targets s c) =
             {k. \<exists>i. (i, k) \<in> set (connections s) \<and> link_open s k \<and> i \<noteq> peer_of s c}"
    by (force simp: relay_targets_def)
  have "c \<notin> set (relay_targets s c)"
  proof
    assume "c \<in> set (relay_targets s c)"
    with m obtain i where "(i, c) \<in> set (connections s)" "i \<noteq> peer_of s c" by blast
    with assms(3) show False by (auto simp: keyed_def list_all_iff)
  qed
  then have n: "\<forall>e. ConnSend c e \<notin> set (snd (conn_onData c d s))"
    by (auto simp: conn_onData_def)
  from assms(4,5) have "emit c (EvData d) s = conn_onData c d s"
    by (simp add: emit_def)
  with assms(1) size t m n show ?thesis by (simp add: conn_onData_def)
qed

text \<open>
  A host with three open links and one closed one: an event from \<open>ann\<close> goes to \<open>bob\<close> and
  \<open>cy\<close>.
\<close>

theorem conn_onData_relay_witness:
  "snd (emit 0 (EvData (play_at 12)) host4) =
     [ToBackground (PeerData (play_at 12) ''ann''), ConnSend 1 (play_at 12),
      ConnSend 2 (play_at 12)]"
proof -
  have "isHost host4" "length (open_links host4) > 1" "keyed host4"
    "0 < length (links host4)" "0 \<in> set (listeners host4)"
    by (simp_all add: host4_def open_links_def keyed_def link_open_def peer_of_def)
  from conn_onData_relay [OF this, of "play_at 12"]
  show ?thesis
    by (simp add: host4_def relay_targets_def link_open_def peer_of_def)
qed

subsection \<open>Errors and closes of a link\<close>

lemma Map_delete_absent: "k \<notin> fst ` set (Map_delete k m)"
  by (auto simp: Map_delete_def)

text \<open>
  C9. A transport error on a connection with handlers: the entry under the connection's
  peer leaves the mapping, nothing is sent to the Coordinator, and the Coordinator's state
  (its mirrored peer count with it) stays as it was. A close of the same connection
  removes the entry too, and sends exactly one \<open>peer-left\<close> whose count, one more than the
  size of the mapping, becomes the Coordinator's mirrored count.
\<close>

theorem conn_error_silent:
  assumes "c < length (links s)" and "c \<in> set (listeners s)"
  shows "emit c EvError s = (s\<lparr>connections := Map_delete (peer_of s c) (connections s)\<rparr>, [])
         \<and> peer_of s c \<notin> fst ` set (connections (fst (emit c EvError s)))
         \<and> deliver (snd (emit c EvError s)) b = b
         \<and> snd (emit c EvClose s) =
             [ToBackground (PeerLeft (peer_of s c)
                (Map_size (connections (fst (emit c EvClose s))) + 1))]
         \<and> connections (fst (emit c EvClose s)) = Map_delete (peer_of s c) (connections s)
         \<and> bg_peerCount (deliver (snd (emit c EvClose s)) b) =
             Map_size (connections (fst (emit c EvClose s))) + 1"
  using assms
  by (simp add: emit_def conn_onError_def conn_onClose_def set_link_open_def peer_of_def
      Map_delete_absent handleOffscreenMessage_def Let_def)

theorem conn_error_silent_witness:
  "emit 2 EvError host4 =
     (host4\<lparr>connections := [(''ann'', 0), (''bob'', 1), (''dee'', 3)]\<rparr>, [])
   \<and> bg_peerCount (deliver (snd (emit 2 EvError host4)) bg5) = 5
   \<and> snd (emit 2 EvClose host4) = [ToBackground (PeerLeft ''cy'' 4)]
   \<and> bg_peerCount (deliver (snd (emit 2 EvClose host4)) bg5) = 4"
proof -
  have "2 < length (links host4)" "2 \<in> set (listeners host4)"
    by (simp_all add: host4_def)
  note w = conn_error_silent [OF this, of bg5]
  have p: "peer_of host4 2 = ''cy''"
    by (simp add: host4_def peer_of_def)
  have d: "Map_delete ''cy'' (connections host4) = [(''ann'', 0), (''bob'', 1), (''dee'', 3)]"
    by (simp add: host4_def Map_delete_def)
  from w have "emit 2 EvError host4 =
      (host4\<lparr>connections := Map_delete (peer_of host4 2) (connections host4)\<rparr>, [])"
    by blast
  then have e: "emit 2 EvError host4 =
      (host4\<lparr>connections := [(''ann'', 0), (''bob'', 1), (''dee'', 3)]\<rparr>, [])"
    by (simp only: p d)
  from w have "deliver (snd (emit 2 EvError host4)) bg5 = bg5" by blast
  then have m: "bg_peerCount (deliver (snd (emit 2 EvError host4)) bg5) = 5"
    by (simp add: bg5_def)
  from w have c: "connections (fst (emit 2 EvClose host4)) =
      Map_delete (peer_of host4 2) (connections host4)" by blast
  then have n: "Map_size (connections (fst (emit 2 EvClose host4))) + 1 = 4"
    by (simp add: p d Map_size_def)
  from w have "snd (emit 2 EvClose host4) =
             [ToBackground (PeerLeft (peer_of host4 2)
                (Map_size (connections (fst (emit 2 EvClose host4))) + 1))]" by blast
  then have l: "snd (emit 2 EvClose host4) = [ToBackground (PeerLeft ''cy'' 4)]"
    by (simp only: p n)
  from w have "bg_peerCount (deliver (snd (emit 2 EvClose host4)) bg5) =
             Map_size (connections (fst (emit 2 EvClose host4))) + 1" by blast
  then have k: "bg_peerCount (deliver (snd (emit 2 EvClose host4)) bg5) = 4"
    by (simp only: n)
  from e m l k show ?thesis by blast
qed

subsection \<open>Leaving a session\<close>




subsection \<open>Timeouts\<close>

lemma attempt_timeout:
  "createSession_attempt rnd_third SigTimeout 0 cm0 =
     (timed_out, [NewPeer (Some ''videosync-L6L6L6'')], ''L6L6L6'',
      Inl ''Connection timeout - could not reach signaling server'')"
  by code_simp

text \<open>
  C7, at a signalling server that never answers. \<open>createSession\<close> returns the timeout
  error; the only thing it did to the outside is the creation of the peer, the global
  \<open>peer\<close> still holds that object, not destroyed, and \<open>getStatus\<close> reports it as
  connected. The 10-second timer of \<open>joinSession\<close>, in contrast, closes the pending
  connection before it rejects.
\<close>

theorem createSession_timeout_keeps_peer:
  "createSession rnd_third never_answers 0 [] cm0 =
     Some (timed_out, [NewPeer (Some ''videosync-L6L6L6'')],
           Failure ''Connection timeout - could not reach signaling server'')
   \<and> PeerDestroy \<notin> set [NewPeer (Some ''videosync-L6L6L6'')]
   \<and> map_option destroyed (peer timed_out) = Some False
   \<and> getStatus timed_out =
        \<lparr>connected = True, status_sessionCode = Some ''L6L6L6'', status_isHost = True,
         peerCount = 1\<rparr>
   \<and> fst (snd (joinSession ''L6L6L6'' (SigOpen ''guest-1'') LinkTimeout cm0)) =
        [NewPeer None, ToBackground (PeerReady ''guest-1''), PeerConnect 0 ''videosync-L6L6L6'',
         ConnClose 0]"
proof -
  have "createSession rnd_third never_answers 0 [] cm0 =
     Some (timed_out, [NewPeer (Some ''videosync-L6L6L6'')],
           Failure ''Connection timeout - could not reach signaling server'')"
    by (subst createSession.simps) (simp add: never_answers_def attempt_timeout)
  moreover have "getStatus timed_out =
        \<lparr>connected = True, status_sessionCode = Some ''L6L6L6'', status_isHost = True,
         peerCount = 1\<rparr>"
    by (simp add: timed_out_def getStatus_def Map_size_def)
  moreover have "fst (snd (joinSession ''L6L6L6'' (SigOpen ''guest-1'') LinkTimeout cm0)) =
        [NewPeer None, ToBackground (PeerReady ''guest-1''), PeerConnect 0 ''videosync-L6L6L6'',
         ConnClose 0]"
    by code_simp
  ultimately show ?thesis by (simp add: timed_out_def)
qed

subsection \<open>The reported peer count\<close>

text \<open>
  On a host the count that is reported is one more than the number of open links of the
  mapping, as long as every entry of the mapping is open: the handlers report
  \<open>connections.size + 1\<close>.
\<close>

lemma host_count_reported:
  "snd (conn_onOpen c s) =
     [ToBackground (PeerJoined (peer_of s c) (Map_size (connections (fst (conn_onOpen c s))) + 1))]
   \<and> snd (conn_onClose c s) =
     [ToBackground (PeerLeft (peer_of s c) (Map_size (connections (fst (conn_onClose c s))) + 1))]"
  by (simp add: conn_onOpen_def conn_onClose_def Let_def)

lemma getStatus_count_open_links:
  assumes "peer s = Some p" and "\<not> destroyed p"
    and "list_all (\<lambda>(i, k). link_open s k) (connections s)"
  shows "peerCount (getStatus s) = 1 + int (length (open_links s))"
proof -
  from assms(3) have "filter (\<lambda>(i, k). link_open s k) (connections s) = connections s"
    by (simp add: list_all_iff)
  with assms(1,2) show ?thesis
    by (simp add: getStatus_def open_links_def Map_size_def)
qed

text \<open>
  C5, on a guest. The join of a guest resolves with the connection to the host open, and
  \<open>handleJoinSession\<close> sets the Coordinator's count to 2. The handlers of
  \<open>setupConnection\<close> were registered inside the handler of the connection's \<open>open\<close> event,
  so the connection never enters the mapping: \<open>getStatus\<close> reports \<open>peerCount = 1\<close>, which
  \<open>handleGetStatus\<close> copies into the Coordinator, and \<open>broadcast\<close> sends nothing. On the
  host, where \<open>setupConnection\<close> runs before \<open>open\<close>, the same link is counted: the
  notification and \<open>getStatus\<close> both say 2.
\<close>

theorem guest_link_not_counted:
  "joinSession ''k7pq4r'' (SigOpen ''guest-1'') LinkOpen cm0 =
     (guest_joined,
      [NewPeer None, ToBackground (PeerReady ''guest-1''), PeerConnect 0 ''videosync-K7PQ4R'',
       ConnSend 0 sync_request],
      Resolved (SessionOk ''K7PQ4R'' False))
   \<and> length (filter conn_open (links guest_joined)) = 1
   \<and> connections guest_joined = []
   \<and> peerCount (getStatus guest_joined) = 1
   \<and> bg_peerCount (fst (handleJoinSession (Inr (SessionOk ''K7PQ4R'' False)) bg0)) = 2
   \<and> bg_peerCount (fst (handleGetStatus (Some (Inr (getStatus guest_joined)))
        (fst (handleJoinSession (Inr (SessionOk ''K7PQ4R'' False)) bg0)))) = 1
   \<and> broadcast (play_at 12) guest_joined = []
   \<and> snd (emit 0 EvOpen (fst (peer_onConnection ''guest-1'' hosting))) =
        [ToBackground (PeerJoined ''guest-1'' 2)]
   \<and> peerCount (getStatus (fst (emit 0 EvOpen (fst (peer_onConnection ''guest-1'' hosting))))) = 2"
proof -
  have "joinSession ''k7pq4r'' (SigOpen ''guest-1'') LinkOpen cm0 =
     (guest_joined,
      [NewPeer None, ToBackground (PeerReady ''guest-1''), PeerConnect 0 ''videosync-K7PQ4R'',
       ConnSend 0 sync_request],
      Resolved (SessionOk ''K7PQ4R'' False))"
    by code_simp
  moreover have "length (filter conn_open (links guest_joined)) = 1
      \<and> connections guest_joined = [] \<and> peerCount (getStatus guest_joined) = 1
      \<and> broadcast (play_at 12) guest_joined = []"
    by (simp add: guest_joined_def getStatus_def Map_size_def broadcast_def)
  moreover have "bg_peerCount (fst (handleJoinSession (Inr (SessionOk ''K7PQ4R'' False)) bg0)) = 2
      \<and> bg_peerCount (fst (handleGetStatus (Some (Inr (getStatus guest_joined)))
           (fst (handleJoinSession (Inr (SessionOk ''K7PQ4R'' False)) bg0)))) = 1"
    by (simp add: handleJoinSession_def handleGetStatus_def success_def guest_joined_def
        getStatus_def Map_size_def)
  moreover have "snd (emit 0 EvOpen (fst (peer_onConnection ''guest-1'' hosting))) =
        [ToBackground (PeerJoined ''guest-1'' 2)]"
    by code_simp
  moreover have
    "peerCount (getStatus (fst (emit 0 EvOpen (fst (peer_onConnection ''guest-1'' hosting))))) = 2"
    by code_simp
  ultimately show ?thesis by blast
qed

end
